theory Spec2Isabelle
  imports Main "HOL-Library.Char_ord" "HOL-Library.List_Lexorder" "HOL-Library.Multiset"
begin

section \<open>Text\<close>

text \<open>
  Python \<open>str\<close> values are modelled as \<open>string\<close>, the UTF-8 bytes of the text. The
  literals of \<open>start.py\<close> that are not ASCII are written out byte by byte. Ordering of
  strings (\<open>sorted\<close>) is the lexicographic order of the bytes, which for UTF-8 is the order
  of the code points Python compares.
\<close>

definition truthy :: "string option \<Rightarrow> bool" where
  \<comment> \<open>Python's truth value of an \<open>Optional[str]\<close>: \<open>None\<close> and \<open>""\<close> are false.\<close>
  "truthy s = (case s of None \<Rightarrow> False | Some t \<Rightarrow> t \<noteq> [])"

definition fmt_opt :: "string option \<Rightarrow> string" where
  \<comment> \<open>\<open>f"{x}"\<close> for an \<open>Optional[str]\<close>.\<close>
  "fmt_opt s = (case s of None \<Rightarrow> ''None'' | Some t \<Rightarrow> t)"

definition digit_char :: "nat \<Rightarrow> char" where
  "digit_char d = ''0123456789'' ! d"

fun str_nat :: "nat \<Rightarrow> string" where
  "str_nat n = (if n < 10 then [digit_char n] else str_nat (n div 10) @ [digit_char (n mod 10)])"

declare str_nat.simps [simp del]

definition str_int :: "int \<Rightarrow> string" where
  \<comment> \<open>\<open>f"{i}"\<close> for an \<open>int\<close>.\<close>
  "str_int i = (if i < 0 then ''-'' @ str_nat (nat (- i)) else str_nat (nat i))"

definition is_space :: "char \<Rightarrow> bool" where
  \<comment> \<open>The ASCII characters for which \<open>str.isspace\<close> holds: TAB, LF, VT, FF, CR, FS, GS, RS, US
      and the blank.\<close>
  "is_space c = (c \<in> set [CHR 0x09, CHR 0x0A, CHR 0x0B, CHR 0x0C, CHR 0x0D,
                           CHR 0x1C, CHR 0x1D, CHR 0x1E, CHR 0x1F, CHR 0x20])"

definition strip :: "string \<Rightarrow> string" where
  \<comment> \<open>\<open>s.strip()\<close>\<close>
  "strip s = rev (dropWhile is_space (rev (dropWhile is_space s)))"

fun split_on :: "char \<Rightarrow> string \<Rightarrow> string list" where
  \<comment> \<open>\<open>s.split(c)\<close> for a one-character separator: always at least one piece.\<close>
  "split_on c [] = [[]]"
| "split_on c (x # xs) =
     (if x = c then [] # split_on c xs
      else (case split_on c xs of [] \<Rightarrow> [[x]] | p # ps \<Rightarrow> (x # p) # ps))"

fun split_ws_acc :: "string \<Rightarrow> string \<Rightarrow> string list" where
  \<comment> \<open>the scan of \<open>s.split()\<close>: the first argument is the word being read, reversed\<close>
  "split_ws_acc w [] = (if w = [] then [] else [rev w])"
| "split_ws_acc w (x # xs) =
     (if is_space x then (if w = [] then split_ws_acc [] xs else rev w # split_ws_acc [] xs)
      else split_ws_acc (x # w) xs)"

definition split_ws :: "string \<Rightarrow> string list" where
  \<comment> \<open>\<open>s.split()\<close>: the maximal runs of characters that are not white space\<close>
  "split_ws s = split_ws_acc [] s"

fun join :: "string \<Rightarrow> string list \<Rightarrow> string" where
  \<comment> \<open>\<open>sep.join(xs)\<close>\<close>
  "join sep [] = []"
| "join sep [x] = x"
| "join sep (x # y # ys) = x @ sep @ join sep (y # ys)"

definition msg_usb_not_found :: string where
  "msg_usb_not_found = [CHR 0xE6, CHR 0x9C, CHR 0xAA, CHR 0xE6, CHR 0x89, CHR 0xBE, CHR 0xE5,
     CHR 0x88, CHR 0xB0, CHR 0x55, CHR 0x53, CHR 0x42, CHR 0xE8, CHR 0xAE, CHR 0xBE, CHR 0xE5,
     CHR 0xA4, CHR 0x87, CHR 0x20]"

definition msg_path_missing :: string where
  "msg_path_missing = [CHR 0xE8, CHR 0xAE, CHR 0xBE, CHR 0xE5, CHR 0xA4, CHR 0x87, CHR 0xE8,
     CHR 0xB7, CHR 0xAF, CHR 0xE5, CHR 0xBE, CHR 0x84, CHR 0xE4, CHR 0xB8, CHR 0x8D, CHR 0xE5,
     CHR 0xAD, CHR 0x98, CHR 0xE5, CHR 0x9C, CHR 0xA8, CHR 0x3A, CHR 0x20]"

definition msg_cross :: string where
  "msg_cross = [CHR 0xE2, CHR 0x9C, CHR 0x97, CHR 0x20]"

definition msg_check :: string where
  "msg_check = [CHR 0xE2, CHR 0x9C, CHR 0x93, CHR 0x20]"

definition msg_devices_missing :: string where
  "msg_devices_missing = [CHR 0xE6, CHR 0x9C, CHR 0xAA, CHR 0xE6, CHR 0x89, CHR 0xBE, CHR 0xE5,
     CHR 0x88, CHR 0xB0, CHR 0xE6, CHR 0x89, CHR 0x80, CHR 0xE6, CHR 0x9C, CHR 0x89, CHR 0xE5,
     CHR 0xBF, CHR 0x85, CHR 0xE9, CHR 0x9C, CHR 0x80, CHR 0xE7, CHR 0x9A, CHR 0x84, CHR 0xE8,
     CHR 0xAE, CHR 0xBE, CHR 0xE5, CHR 0xA4, CHR 0x87, CHR 0xEF, CHR 0xBC, CHR 0x8C, CHR 0xE6,
     CHR 0x97, CHR 0xA0, CHR 0xE6, CHR 0xB3, CHR 0x95, CHR 0xE5, CHR 0x90, CHR 0xAF, CHR 0xE5,
     CHR 0x8A, CHR 0xA8, CHR 0xE5, CHR 0xAE, CHR 0xB9, CHR 0xE5, CHR 0x99, CHR 0xA8]"

definition msg_missing_device :: string where
  "msg_missing_device = [CHR 0x20, CHR 0x20, CHR 0xE7, CHR 0xBC, CHR 0xBA, CHR 0xE5, CHR 0xA4,
     CHR 0xB1, CHR 0xE8, CHR 0xAE, CHR 0xBE, CHR 0xE5, CHR 0xA4, CHR 0x87, CHR 0x3A, CHR 0x20]"

definition msg_press_key :: string where
  "msg_press_key = [CHR 0x0A, CHR 0xE6, CHR 0x8C, CHR 0x89, CHR 0xE4, CHR 0xBB, CHR 0xBB,
     CHR 0xE6, CHR 0x84, CHR 0x8F, CHR 0xE9, CHR 0x94, CHR 0xAE, CHR 0xE9, CHR 0x80, CHR 0x80,
     CHR 0xE5, CHR 0x87, CHR 0xBA, CHR 0x2E, CHR 0x2E, CHR 0x2E]"

definition msg_interface :: string where
  "msg_interface = [CHR 0x20, CHR 0x5B, CHR 0xE6, CHR 0x8E, CHR 0xA5, CHR 0xE5, CHR 0x8F,
     CHR 0xA3, CHR 0x3A]"

definition msg_serial :: string where
  "msg_serial = [CHR 0x20, CHR 0x5B, CHR 0xE5, CHR 0xBA, CHR 0x8F, CHR 0xE5, CHR 0x88, CHR 0x97,
     CHR 0xE5, CHR 0x8F, CHR 0xB7, CHR 0x3A]"

definition msg_add_usb :: string where
  "msg_add_usb = [CHR 0xE6, CHR 0xB7, CHR 0xBB, CHR 0xE5, CHR 0x8A, CHR 0xA0, CHR 0x55, CHR 0x53,
     CHR 0x42, CHR 0xE8, CHR 0xAE, CHR 0xBE, CHR 0xE5, CHR 0xA4, CHR 0x87, CHR 0xE6, CHR 0x98,
     CHR 0xA0, CHR 0xE5, CHR 0xB0, CHR 0x84, CHR 0x3A, CHR 0x20]"

definition msg_add_device :: string where
  "msg_add_device = [CHR 0xE6, CHR 0xB7, CHR 0xBB, CHR 0xE5, CHR 0x8A, CHR 0xA0, CHR 0xE8,
     CHR 0xAE, CHR 0xBE, CHR 0xE5, CHR 0xA4, CHR 0x87, CHR 0xE6, CHR 0x98, CHR 0xA0, CHR 0xE5,
     CHR 0xB0, CHR 0x84, CHR 0x3A, CHR 0x20]"

definition msg_lookup_failed :: string where
  "msg_lookup_failed = [CHR 0xE8, CHR 0xAE, CHR 0xBE, CHR 0xE5, CHR 0xA4, CHR 0x87, CHR 0xE6,
     CHR 0x9F, CHR 0xA5, CHR 0xE6, CHR 0x89, CHR 0xBE, CHR 0xE5, CHR 0xA4, CHR 0xB1, CHR 0xE8,
     CHR 0xB4, CHR 0xA5, CHR 0x3A, CHR 0x20]"

section \<open>The host, effects and exceptions\<close>

text \<open>
  What the program reads from the machine it runs on is a snapshot \<open>host\<close>: the directory
  listing behind \<open>glob.glob\<close>, the outcome of running a process, \<open>os.path.exists\<close>, the
  \<open>DISPLAY\<close> variable, \<open>os.getuid\<close>, \<open>os.path.expanduser\<close> and the text of an exception.
  A process either cannot be run at all (\<open>subprocess.run\<close> raises, for instance because the
  executable is missing) or finishes with a return code and its standard output.
\<close>

datatype launch = Not_run | Finished int string

datatype exn =
    CalledProcessError int
  | OtherException
  | SystemExit int

record host =
  glob :: "string \<Rightarrow> string list"
  run_process :: "string list \<Rightarrow> launch"
  path_exists :: "string \<Rightarrow> bool"
  environ_DISPLAY :: "string option"
  getuid :: nat
  expanduser :: "string \<Rightarrow> string"
  str_exn :: "exn \<Rightarrow> string"

text \<open>
  What the program does to the outside is a list of events, in the order of execution:
  processes run, existence checks of paths, error lines of the logger of the device mapper,
  lines printed, and the read of a key press. A computation returns a value or raises, and
  carries its events. \<open>SystemExit\<close> is the only exception that \<open>except Exception\<close> lets through.
\<close>

datatype event =
    Exec "string list"
  | Exists string
  | LogError string
  | Print string
  | Input

type_synonym 'a io = "(exn + 'a) \<times> event list"

definition ret :: "'a \<Rightarrow> 'a io" where
  "ret x = (Inr x, [])"

definition raise :: "exn \<Rightarrow> 'a io" where
  "raise e = (Inl e, [])"

definition emit :: "event \<Rightarrow> unit io" where
  "emit ev = (Inr (), [ev])"

definition bind :: "'a io \<Rightarrow> ('a \<Rightarrow> 'b io) \<Rightarrow> 'b io" where
  "bind m f = (case m of
       (Inl e, t) \<Rightarrow> (Inl e, t)
     | (Inr x, t) \<Rightarrow> (case f x of (r, t') \<Rightarrow> (r, t @ t')))"

definition is_Exception :: "exn \<Rightarrow> bool" where
  \<comment> \<open>the exceptions that \<open>except Exception\<close> catches\<close>
  "is_Exception e = (case e of SystemExit _ \<Rightarrow> False | _ \<Rightarrow> True)"

definition try_except :: "'a io \<Rightarrow> (exn \<Rightarrow> 'a io option) \<Rightarrow> 'a io" where
  \<comment> \<open>\<open>try: m except ...: h\<close>; \<open>h e = None\<close> when no clause catches \<open>e\<close>\<close>
  "try_except m h = (case m of
       (Inr x, t) \<Rightarrow> (Inr x, t)
     | (Inl e, t) \<Rightarrow> (case h e of
           None \<Rightarrow> (Inl e, t)
         | Some k \<Rightarrow> (case k of (r, t') \<Rightarrow> (r, t @ t'))))"

definition subprocess_run :: "host \<Rightarrow> string list \<Rightarrow> bool \<Rightarrow> (int \<times> string) io" where
  \<comment> \<open>\<open>subprocess.run(argv, capture_output=True, text=True, check=check)\<close>\<close>
  "subprocess_run h argv check = bind (emit (Exec argv)) (\<lambda>_.
     case run_process h argv of
       Not_run \<Rightarrow> raise OtherException
     | Finished rc out \<Rightarrow>
         if check \<and> rc \<noteq> 0 then raise (CalledProcessError rc) else ret (rc, out))"

section \<open>Configuration model\<close>

record VolumeConfig =
  source :: string
  target :: string
  enabled :: bool
  options :: string

definition expanded_source :: "host \<Rightarrow> VolumeConfig \<Rightarrow> string" where
  "expanded_source h v = expanduser h (source v)"

record DeviceConfig =
  name :: string
  path :: "string option"
  enabled :: bool
  options :: string
  usb_vendor :: "string option"
  usb_product :: "string option"
  usb_interface :: "string option"
  usb_serial :: "string option"
  container_path :: "string option"

definition is_usb_device :: "DeviceConfig \<Rightarrow> bool" where
  "is_usb_device d = (usb_vendor d \<noteq> None \<and> usb_product d \<noteq> None)"

definition effective_container_path :: "DeviceConfig \<Rightarrow> string" where
  \<comment> \<open>\<open>self.container_path or f"/dev/{self.name}"\<close>\<close>
  "effective_container_path d =
     (if truthy (container_path d) then the (container_path d) else ''/dev/'' @ DeviceConfig.name d)"

record ResourceConfig =
  network :: string
  privileged :: bool
  gpu_enabled :: bool
  gpu_options :: string

record EnvironmentConfig =
  ros_domain_id :: int
  ros_localhost_only :: int
  display :: string
  auto_detect_display :: bool
  fallback_displays :: "string list"
  pulse_server :: "string option"

definition get_display :: "host \<Rightarrow> EnvironmentConfig \<Rightarrow> string" where
  "get_display h e =
     (if auto_detect_display e
      then (case environ_DISPLAY h of None \<Rightarrow> display e | Some d \<Rightarrow> d)
      else display e)"

definition get_pulse_server :: "host \<Rightarrow> EnvironmentConfig \<Rightarrow> string" where
  "get_pulse_server h e =
     (if truthy (pulse_server e) then the (pulse_server e)
      else (let uid = getuid h in ''unix:/run/user/'' @ str_nat uid @ ''/pulse/native''))"

record ContainerConfig =
  name :: string
  image_repository :: string
  image_tag :: string
  command :: string
  restart :: string

text \<open>
  The \<open>environment\<close> section of the configuration document, after YAML loading: each key is
  absent (\<open>None\<close>) or holds a value of the type the dataclass declares for it. The two ROS
  keys are entries a document may carry like any other.
\<close>

record environment_section =
  key_DISPLAY :: "string option"
  key_auto_detect_display :: "bool option"
  key_fallback_displays :: "string list option"
  key_PULSE_SERVER :: "string option"
  key_ROS_DOMAIN_ID :: "int option"
  key_ROS_LOCALHOST_ONLY :: "int option"

definition EnvironmentConfig_defaults :: EnvironmentConfig where
  \<comment> \<open>the defaults of the dataclass fields\<close>
  "EnvironmentConfig_defaults =
     \<lparr> ros_domain_id = 0, ros_localhost_only = 0, display = '':0'', auto_detect_display = True,
       fallback_displays = ['':0'', '':1'', '':10'', '':11'', '':99''], pulse_server = None \<rparr>"

definition get_or :: "'a option \<Rightarrow> 'a \<Rightarrow> 'a" where
  \<comment> \<open>\<open>d.get(key, default)\<close> on the value found under the key\<close>
  "get_or v dflt = (case v of None \<Rightarrow> dflt | Some x \<Rightarrow> x)"

definition parse_environment :: "environment_section option \<Rightarrow> EnvironmentConfig" where
  \<comment> \<open>\<open>env = config.get('environment', {})\<close>: a document without the section reads as one with
      no keys. The constructor call names four fields; the others keep their defaults.\<close>
  "parse_environment sec =
     (let env = get_or sec \<lparr> key_DISPLAY = None, key_auto_detect_display = None,
                   key_fallback_displays = None, key_PULSE_SERVER = None,
                   key_ROS_DOMAIN_ID = None, key_ROS_LOCALHOST_ONLY = None \<rparr>
      in EnvironmentConfig_defaults
           \<lparr> display := get_or (key_DISPLAY env) '':0'',
             auto_detect_display := get_or (key_auto_detect_display env) True,
             fallback_displays := get_or (key_fallback_displays env)
                                    ['':0'', '':1'', '':10'', '':11'', '':99''],
             pulse_server := key_PULSE_SERVER env \<rparr>)"

section \<open>The command builder\<close>

record DockerCommand =
  base_cmd :: "string list"
  name :: "string option"
  image :: "string option"
  network :: "string option"
  privileged :: bool
  gpu_options :: "string option"
  volumes :: "string list"
  devices :: "string list"
  environment :: "string list"

definition build :: "DockerCommand \<Rightarrow> string list" where
  "build c =
     (let cmd = base_cmd c;
          cmd = (if truthy (DockerCommand.name c)
                 then cmd @ [''--name'', the (DockerCommand.name c)] else cmd);
          cmd = (if truthy (DockerCommand.network c)
                 then cmd @ [''--network'', the (DockerCommand.network c)] else cmd);
          cmd = (if DockerCommand.privileged c then cmd @ [''--privileged''] else cmd);
          cmd = (if truthy (DockerCommand.gpu_options c)
                 then cmd @ split_ws (the (DockerCommand.gpu_options c)) else cmd);
          cmd = cmd @ DockerCommand.volumes c;
          cmd = cmd @ DockerCommand.devices c;
          cmd = cmd @ DockerCommand.environment c;
          cmd = (if truthy (image c)
                 then cmd @ [the (image c), ''tail'', ''-f'', ''/dev/null''] else cmd)
      in cmd)"

section \<open>Inventory scanner, identity resolver and matcher\<close>

record TTYDeviceFinder =
  tty_devices :: "string list"

definition scan_tty_devices :: "host \<Rightarrow> string list" where
  "scan_tty_devices h =
     sort (foldl (\<lambda>tty_devices pattern. tty_devices @ glob h pattern) []
                 [''/dev/ttyUSB*'', ''/dev/ttyACM*''])"

definition TTYDeviceFinder_init :: "host \<Rightarrow> TTYDeviceFinder" where
  "TTYDeviceFinder_init h = \<lparr> tty_devices = scan_tty_devices h \<rparr>"

definition add_property :: "(string \<rightharpoonup> string) \<Rightarrow> string \<Rightarrow> (string \<rightharpoonup> string)" where
  \<comment> \<open>the body of the loop over the lines: \<open>key, value = line.split('=', 1)\<close>\<close>
  "add_property device_info line =
     (if CHR ''='' \<in> set line
      then device_info(takeWhile (\<lambda>c. c \<noteq> CHR ''='') line
                         \<mapsto> tl (dropWhile (\<lambda>c. c \<noteq> CHR ''='') line))
      else device_info)"

definition get_device_info :: "host \<Rightarrow> string \<Rightarrow> (string \<rightharpoonup> string) io" where
  "get_device_info h tty_device =
     try_except
       (bind (subprocess_run h [''udevadm'', ''info'', ''-q'', ''property'', ''-n'', tty_device] True)
          (\<lambda>result. ret (foldl add_property Map.empty
                             (split_on (CHR 0x0A) (strip (snd result))))))
       (\<lambda>e. case e of
               CalledProcessError _ \<Rightarrow> Some (ret Map.empty)
             | _ \<Rightarrow> if is_Exception e then Some (ret Map.empty) else None)"

fun find_in :: "host \<Rightarrow> string \<Rightarrow> string \<Rightarrow> string option \<Rightarrow> string option \<Rightarrow> string list
                 \<Rightarrow> string option io" where
  \<comment> \<open>the loop of \<open>find_by_usb_id\<close> over the devices still to visit\<close>
  "find_in h vendor_id product_id iface serial [] = ret None"
| "find_in h vendor_id product_id iface serial (tty_device # rest) =
     bind (get_device_info h tty_device) (\<lambda>device_info.
       if device_info ''ID_VENDOR_ID'' = Some vendor_id
          \<and> device_info ''ID_MODEL_ID'' = Some product_id
       then (if iface \<noteq> None \<and> device_info ''ID_USB_INTERFACE_NUM'' \<noteq> iface
             then find_in h vendor_id product_id iface serial rest
             else if serial \<noteq> None \<and> device_info ''ID_SERIAL'' \<noteq> serial
             then find_in h vendor_id product_id iface serial rest
             else ret (Some tty_device))
       else find_in h vendor_id product_id iface serial rest)"

definition find_by_usb_id :: "host \<Rightarrow> TTYDeviceFinder \<Rightarrow> string \<Rightarrow> string
                               \<Rightarrow> string option \<Rightarrow> string option \<Rightarrow> string option io" where
  "find_by_usb_id h f vendor_id product_id iface serial =
     find_in h vendor_id product_id iface serial (tty_devices f)"

section \<open>The device mapping engine\<close>

fun for_each :: "('a \<Rightarrow> 's \<Rightarrow> 's io) \<Rightarrow> 'a list \<Rightarrow> 's \<Rightarrow> 's io" where
  \<comment> \<open>\<open>for x in xs: body\<close>, the loop's variables threaded as a state\<close>
  "for_each body [] s = ret s"
| "for_each body (x # xs) s = bind (body x s) (for_each body xs)"

record DeviceMapper =
  finder :: TTYDeviceFinder
  dry_run_mode :: bool

definition DeviceMapper_init :: "host \<Rightarrow> DeviceMapper" where
  "DeviceMapper_init h = \<lparr> finder = TTYDeviceFinder_init h, dry_run_mode = False \<rparr>"

definition map_usb_device :: "host \<Rightarrow> DeviceMapper \<Rightarrow> DeviceConfig \<Rightarrow> string option io" where
  "map_usb_device h m device =
     (if \<not> is_usb_device device then ret None
      else try_except
             (find_by_usb_id h (finder m) (the (usb_vendor device)) (the (usb_product device))
                (usb_interface device) (usb_serial device))
             (\<lambda>e. if is_Exception e
                   then Some (bind (emit (LogError (msg_lookup_failed @ str_exn h e)))
                                (\<lambda>_. ret None))
                   else None))"

type_synonym mapped = "DeviceConfig \<times> string option \<times> string"

definition map_one :: "host \<Rightarrow> DeviceMapper \<Rightarrow> DeviceConfig
    \<Rightarrow> (string \<times> string) list \<times> mapped list \<Rightarrow> ((string \<times> string) list \<times> mapped list) io" where
  \<comment> \<open>the body of the first loop of \<open>map_devices\<close>; the state is
      \<open>(failed_devices, mapped_devices)\<close>\<close>
  "map_one h m device st =
     (let failed_devices = fst st; mapped_devices = snd st in
      if \<not> DeviceConfig.enabled device then ret st
      else if is_usb_device device then
        bind (map_usb_device h m device) (\<lambda>tty_device.
          if truthy tty_device
          then ret (failed_devices,
                    mapped_devices @ [(device, tty_device,
                       the tty_device @ '':'' @ effective_container_path device @ '':rw'')])
          else (let error_msg = msg_usb_not_found @ fmt_opt (usb_vendor device) @ '':''
                                  @ fmt_opt (usb_product device)
                in ret (failed_devices @ [(DeviceConfig.name device, error_msg)],
                        mapped_devices @ [(device, None, error_msg)])))
      else
        bind (if truthy (path device)
              then bind (emit (Exists (the (path device))))
                     (\<lambda>_. ret (path_exists h (the (path device))))
              else ret False) (\<lambda>present.
          if present
          then ret (failed_devices,
                    mapped_devices @ [(device, path device,
                       the (path device) @ '':'' @ DeviceConfig.options device)])
          else (let error_msg = msg_path_missing @ fmt_opt (path device)
                in ret (failed_devices @ [(DeviceConfig.name device, error_msg)],
                        mapped_devices @ [(device, None, error_msg)]))))"

definition report_failed :: "bool \<Rightarrow> (string \<times> string) list \<Rightarrow> unit io" where
  \<comment> \<open>the check after the loop: \<open>if failed_devices: ...\<close>. The key press is read inside
      \<open>try: input() except: pass\<close>, so whatever it raises is dropped.\<close>
  "report_failed dry failed_devices =
     (if failed_devices \<noteq> [] then
        (if dry
         then for_each (\<lambda>f _. emit (Print (msg_cross @ fst f))) failed_devices ()
         else bind (emit (LogError msg_devices_missing)) (\<lambda>_.
              bind (for_each (\<lambda>f _. emit (LogError (msg_missing_device @ fst f @ '' - '' @ snd f)))
                      failed_devices ()) (\<lambda>_.
              bind (emit (Print msg_press_key)) (\<lambda>_.
              bind (emit Input) (\<lambda>_.
              raise (SystemExit 1))))))
      else ret ())"

definition map_devices :: "host \<Rightarrow> DeviceMapper \<Rightarrow> DeviceConfig list \<Rightarrow> mapped list io" where
  \<comment> \<open>The generator's body runs up to its first \<open>yield\<close> when the caller's loop starts, so the
      whole mapping and the check come before the first item is handed out.\<close>
  "map_devices h m devs =
     bind (for_each (map_one h m) devs ([], [])) (\<lambda>st.
     bind (report_failed (dry_run_mode m) (fst st)) (\<lambda>_.
     ret (snd st)))"

section \<open>The runner\<close>

datatype ContainerStatus = RUNNING | STOPPED | NOT_EXISTS | ERROR

record DockerRunner =
  container_config :: ContainerConfig
  resource_config :: ResourceConfig
  environment_config :: EnvironmentConfig
  volumes :: "VolumeConfig list"
  devices :: "DeviceConfig list"
  device_mapper :: DeviceMapper
  dry_run_mode :: bool

definition get_container_status :: "host \<Rightarrow> string \<Rightarrow> ContainerStatus io" where
  "get_container_status h container_name =
     try_except
       (bind (subprocess_run h [''docker'', ''ps'', ''-a'', ''--format'', ''{{.Names}}''] True)
          (\<lambda>result.
            let containers = split_on (CHR 0x0A) (strip (snd result)) in
            if container_name \<notin> set containers then ret NOT_EXISTS
            else bind (subprocess_run h [''docker'', ''ps'', ''--format'', ''{{.Names}}''] True)
                   (\<lambda>running_result.
                     let running_containers = split_on (CHR 0x0A) (strip (snd running_result))
                     in ret (if container_name \<in> set running_containers
                             then RUNNING else STOPPED))))
       (\<lambda>e. case e of CalledProcessError _ \<Rightarrow> Some (ret ERROR) | _ \<Rightarrow> None)"

definition stop_and_remove_container :: "host \<Rightarrow> string \<Rightarrow> bool io" where
  "stop_and_remove_container h container_name =
     try_except
       (bind (get_container_status h container_name) (\<lambda>status.
          if status = NOT_EXISTS then ret True
          else bind (if status = RUNNING
                     then bind (subprocess_run h [''docker'', ''stop'', container_name] True)
                            (\<lambda>_. ret ())
                     else ret ()) (\<lambda>_.
               bind (subprocess_run h [''docker'', ''rm'', ''-f'', container_name] True) (\<lambda>_.
               ret True))))
       (\<lambda>e. case e of CalledProcessError _ \<Rightarrow> Some (ret False) | _ \<Rightarrow> None)"

definition build_volume_args :: "host \<Rightarrow> DockerRunner \<Rightarrow> string list" where
  "build_volume_args h r =
     foldl (\<lambda>volume_args volume.
              if VolumeConfig.enabled volume
              then volume_args @ [''-v'', expanded_source h volume @ '':'' @ target volume
                                           @ '':'' @ VolumeConfig.options volume]
              else volume_args)
       [] (DockerRunner.volumes r)"

definition log_device_mapping :: "DockerRunner \<Rightarrow> DeviceConfig \<Rightarrow> string \<Rightarrow> string \<Rightarrow> unit io" where
  \<comment> \<open>\<open>usb_serial[:20]\<close> is the first 20 characters; here the first 20 bytes, the same for an
      ASCII serial number.\<close>
  "log_device_mapping r device tty_device device_arg =
     (if DockerRunner.dry_run_mode r then emit (Print (msg_check @ DeviceConfig.name device))
      else if is_usb_device device then
        (let log_info = tty_device @ '' -> '' @ effective_container_path device
                          @ '' ('' @ DeviceConfig.name device @ '')'';
             log_info = (if usb_interface device \<noteq> None
                         then log_info @ msg_interface @ the (usb_interface device) @ '']''
                         else log_info);
             log_info = (if usb_serial device \<noteq> None
                         then log_info @ msg_serial @ take 20 (the (usb_serial device)) @ ''...]''
                         else log_info)
         in emit (Print (msg_add_usb @ log_info)))
      else emit (Print (msg_add_device @ fmt_opt (path device))))"

definition build_device_args :: "host \<Rightarrow> DockerRunner \<Rightarrow> string list io" where
  "build_device_args h r =
     bind (map_devices h (device_mapper r) (DockerRunner.devices r)) (\<lambda>items.
       for_each (\<lambda>item device_args.
                   (case item of (device, tty_device, device_arg) \<Rightarrow>
                      if truthy tty_device
                      then bind (log_device_mapping r device (the tty_device) device_arg)
                             (\<lambda>_. ret (device_args @ [''--device'', device_arg]))
                      else ret device_args))
         items [])"

definition build_environment_args :: "host \<Rightarrow> DockerRunner \<Rightarrow> string list" where
  "build_environment_args h r =
     (let env_args = [];
          env_args = env_args @ [''-e'', ''ROS_DOMAIN_ID='' @ str_int (ros_domain_id (environment_config r))];
          env_args = env_args @ [''-e'', ''ROS_LOCALHOST_ONLY=''
                                          @ str_int (ros_localhost_only (environment_config r))];
          disp = get_display h (environment_config r);
          env_args = env_args @ [''-e'', ''DISPLAY='' @ disp];
          pulse = get_pulse_server h (environment_config r);
          env_args = env_args @ [''-e'', ''PULSE_SERVER='' @ pulse]
      in env_args)"

definition setup_x11_access :: "host \<Rightarrow> unit io" where
  "setup_x11_access h =
     try_except (bind (subprocess_run h [''xhost'', ''+local:''] False) (\<lambda>_. ret ()))
       (\<lambda>e. if is_Exception e then Some (ret ()) else None)"

definition build_docker_command :: "host \<Rightarrow> DockerRunner \<Rightarrow> string \<Rightarrow> string \<Rightarrow> DockerCommand io" where
  \<comment> \<open>the arguments of the constructor are evaluated in the order written: volumes, devices,
      environment\<close>
  "build_docker_command h r container_name image_name =
     (let vols = build_volume_args h r in
      bind (build_device_args h r) (\<lambda>devs.
      let envs = build_environment_args h r in
      ret \<lparr> base_cmd = [''docker'', ''run'', ''-d''],
            name = Some container_name,
            image = Some image_name,
            network = (if ResourceConfig.network (resource_config r) \<noteq> ''bridge''
                       then Some (ResourceConfig.network (resource_config r)) else None),
            privileged = ResourceConfig.privileged (resource_config r),
            gpu_options = (if gpu_enabled (resource_config r)
                           then Some (ResourceConfig.gpu_options (resource_config r)) else None),
            volumes = vols,
            devices = devs,
            environment = envs \<rparr>))"

definition run :: "host \<Rightarrow> DockerRunner \<Rightarrow> string option \<Rightarrow> string option \<Rightarrow> bool \<Rightarrow> bool io" where
  \<comment> \<open>\<open>DockerRunner.run\<close>. The last \<open>try\<close> also has \<open>except KeyboardInterrupt\<close>; an interrupt
      from the keyboard is not an outcome of the host here.\<close>
  "run h r0 container_name image_name dry_run =
     (let r = r0 \<lparr> DockerRunner.dry_run_mode := dry_run,
                   device_mapper := (device_mapper r0) \<lparr> DeviceMapper.dry_run_mode := dry_run \<rparr> \<rparr>;
          final_container_name = (if truthy container_name then the container_name
                                  else ContainerConfig.name (container_config r));
          final_image_name = (if truthy image_name then the image_name
                              else image_repository (container_config r) @ '':''
                                     @ image_tag (container_config r))
      in if final_container_name = [] \<or> final_image_name = [] then ret False
         else
           bind (if \<not> dry_run then stop_and_remove_container h final_container_name
                 else ret True) (\<lambda>stopped.
           if \<not> stopped then ret False
           else
             bind (if \<not> dry_run then setup_x11_access h else ret ()) (\<lambda>_.
             bind (build_docker_command h r final_container_name final_image_name) (\<lambda>docker_cmd.
             let cmd = build docker_cmd in
             if dry_run
             then bind (emit (Print [])) (\<lambda>_.
                  bind (emit (Print (join '' '' cmd))) (\<lambda>_.
                  ret True))
             else try_except (bind (subprocess_run h cmd True) (\<lambda>_. ret True))
                    (\<lambda>e. case e of CalledProcessError _ \<Rightarrow> Some (ret False) | _ \<Rightarrow> None)))))"

section \<open>Notions used to state the properties\<close>

definition udevadm_argv :: "string \<Rightarrow> string list" where
  "udevadm_argv tty_device = [''udevadm'', ''info'', ''-q'', ''property'', ''-n'', tty_device]"

definition identify :: "host \<Rightarrow> string \<Rightarrow> (string \<rightharpoonup> string)" where
  "identify h tty_device =
     (case fst (get_device_info h tty_device) of Inr device_info \<Rightarrow> device_info | Inl _ \<Rightarrow> Map.empty)"

definition accepts :: "host \<Rightarrow> string \<Rightarrow> string \<Rightarrow> string option \<Rightarrow> string option \<Rightarrow> string \<Rightarrow> bool" where
  "accepts h vendor_id product_id iface serial tty_device =
     (identify h tty_device ''ID_VENDOR_ID'' = Some vendor_id
      \<and> identify h tty_device ''ID_MODEL_ID'' = Some product_id
      \<and> (iface \<noteq> None \<longrightarrow> identify h tty_device ''ID_USB_INTERFACE_NUM'' = iface)
      \<and> (serial \<noteq> None \<longrightarrow> identify h tty_device ''ID_SERIAL'' = serial))"

definition visited :: "('a \<Rightarrow> bool) \<Rightarrow> 'a list \<Rightarrow> 'a list" where
  "visited P xs = takeWhile (\<lambda>x. \<not> P x) xs @ (case List.find P xs of None \<Rightarrow> [] | Some x \<Rightarrow> [x])"

definition usb_match :: "host \<Rightarrow> DeviceConfig \<Rightarrow> string \<Rightarrow> bool" where
  "usb_match h d = accepts h (the (usb_vendor d)) (the (usb_product d)) (usb_interface d) (usb_serial d)"

definition resolved_node :: "host \<Rightarrow> DeviceMapper \<Rightarrow> DeviceConfig \<Rightarrow> string option" where
  "resolved_node h m d =
     (if is_usb_device d
      then (let t = List.find (usb_match h d) (tty_devices (finder m))
            in if truthy t then t else None)
      else if truthy (path d) \<and> path_exists h (the (path d)) then path d else None)"

definition device_arg_of :: "host \<Rightarrow> DeviceMapper \<Rightarrow> DeviceConfig \<Rightarrow> string" where
  "device_arg_of h m d =
     (if is_usb_device d
      then the (resolved_node h m d) @ '':'' @ effective_container_path d @ '':rw''
      else the (path d) @ '':'' @ DeviceConfig.options d)"

definition failure_reason :: "DeviceConfig \<Rightarrow> string" where
  "failure_reason d =
     (if is_usb_device d
      then msg_usb_not_found @ fmt_opt (usb_vendor d) @ '':'' @ fmt_opt (usb_product d)
      else msg_path_missing @ fmt_opt (path d))"

definition item_of :: "host \<Rightarrow> DeviceMapper \<Rightarrow> DeviceConfig \<Rightarrow> mapped" where
  "item_of h m d =
     (if resolved_node h m d = None then (d, None, failure_reason d)
      else (d, resolved_node h m d, device_arg_of h m d))"

definition probes :: "host \<Rightarrow> DeviceMapper \<Rightarrow> DeviceConfig \<Rightarrow> event list" where
  "probes h m d =
     (if is_usb_device d
      then map (\<lambda>t. Exec (udevadm_argv t)) (visited (usb_match h d) (tty_devices (finder m)))
      else if truthy (path d) then [Exists (the (path d))] else [])"

definition enabled_specs :: "DeviceConfig list \<Rightarrow> DeviceConfig list" where
  "enabled_specs ds = filter DeviceConfig.enabled ds"

definition failed_specs :: "host \<Rightarrow> DeviceMapper \<Rightarrow> DeviceConfig list \<Rightarrow> DeviceConfig list" where
  "failed_specs h m ds = filter (\<lambda>d. resolved_node h m d = None) (enabled_specs ds)"

definition resolved_specs :: "host \<Rightarrow> DeviceMapper \<Rightarrow> DeviceConfig list \<Rightarrow> DeviceConfig list" where
  "resolved_specs h m ds = filter (\<lambda>d. resolved_node h m d \<noteq> None) (enabled_specs ds)"

definition mapping_log :: "host \<Rightarrow> DockerRunner \<Rightarrow> DeviceConfig \<Rightarrow> event list" where
  "mapping_log h r d =
     snd (log_device_mapping r d (the (resolved_node h (device_mapper r) d))
            (device_arg_of h (device_mapper r) d))"

definition volume_args_of :: "host \<Rightarrow> VolumeConfig list \<Rightarrow> string list" where
  "volume_args_of h vs =
     concat (map (\<lambda>v. [''-v'', expanded_source h v @ '':'' @ target v @ '':'' @ VolumeConfig.options v])
               (filter VolumeConfig.enabled vs))"

definition device_args_of :: "host \<Rightarrow> DeviceMapper \<Rightarrow> DeviceConfig list \<Rightarrow> string list" where
  "device_args_of h m ds =
     concat (map (\<lambda>d. [''--device'', device_arg_of h m d]) (resolved_specs h m ds))"

definition network_args_of :: "string \<Rightarrow> string list" where
  "network_args_of v = (if v = ''bridge'' \<or> v = [] then [] else [''--network'', v])"

definition launch_command :: "host \<Rightarrow> DockerRunner \<Rightarrow> string \<Rightarrow> string \<Rightarrow> string list" where
  "launch_command h r container_name image_name =
     [''docker'', ''run'', ''-d'']
     @ (if container_name = [] then [] else [''--name'', container_name])
     @ network_args_of (ResourceConfig.network (resource_config r))
     @ (if ResourceConfig.privileged (resource_config r) then [''--privileged''] else [])
     @ (if gpu_enabled (resource_config r) then split_ws (ResourceConfig.gpu_options (resource_config r))
        else [])
     @ volume_args_of h (DockerRunner.volumes r)
     @ device_args_of h (device_mapper r) (DockerRunner.devices r)
     @ [''-e'', ''ROS_DOMAIN_ID='' @ str_int (ros_domain_id (environment_config r)),
        ''-e'', ''ROS_LOCALHOST_ONLY='' @ str_int (ros_localhost_only (environment_config r)),
        ''-e'', ''DISPLAY='' @ get_display h (environment_config r),
        ''-e'', ''PULSE_SERVER='' @ get_pulse_server h (environment_config r)]
     @ (if image_name = [] then [] else [image_name, ''tail'', ''-f'', ''/dev/null''])"

subsection \<open>A concrete machine\<close>

definition demo_udev :: "string \<Rightarrow> launch" where
  "demo_udev dev =
     (if dev = ''/dev/ttyUSB0''
      then Finished 0 (''DEVNAME=/dev/ttyUSB0'' @ [CHR 0x0A] @ ''ID_VENDOR_ID=10c4'' @ [CHR 0x0A]
                        @ ''ID_MODEL_ID=ea60'' @ [CHR 0x0A] @ ''ID_USB_INTERFACE_NUM=00'' @ [CHR 0x0A])
      else if dev = ''/dev/ttyUSB1''
      then Finished 0 (''ID_VENDOR_ID=0403'' @ [CHR 0x0A] @ ''ID_MODEL_ID=6001'' @ [CHR 0x0A])
      else Finished 1 [])"

definition demo_host :: host where
  "demo_host =
     \<lparr> glob = (\<lambda>p. if p = ''/dev/ttyUSB*'' then [''/dev/ttyUSB1'', ''/dev/ttyUSB0''] else []),
       run_process = (\<lambda>argv. case argv of
           [a, b, c, d, e, dev] \<Rightarrow>
             if [a, b, c, d, e] = [''udevadm'', ''info'', ''-q'', ''property'', ''-n'']
             then demo_udev dev else Not_run
         | _ \<Rightarrow> Not_run),
       path_exists = (\<lambda>p. p = ''/dev/video0''),
       environ_DISPLAY = Some '':1'',
       getuid = 1000,
       expanduser = (\<lambda>p. case p of [] \<Rightarrow> [] | c # rest \<Rightarrow> if c = CHR ''~'' then ''/home/dev'' @ rest else p),
       str_exn = (\<lambda>_. ''error'') \<rparr>"

definition dual_host :: host where
  "dual_host = demo_host
     \<lparr> run_process := (\<lambda>argv.
          if argv = udevadm_argv ''/dev/ttyUSB0''
          then Finished 0 (''ID_VENDOR_ID=0403'' @ [CHR 0x0A] @ ''ID_MODEL_ID=6010'' @ [CHR 0x0A]
                            @ ''ID_USB_INTERFACE_NUM=00'' @ [CHR 0x0A])
          else if argv = udevadm_argv ''/dev/ttyUSB1''
          then Finished 0 (''ID_VENDOR_ID=0403'' @ [CHR 0x0A] @ ''ID_MODEL_ID=6010'' @ [CHR 0x0A]
                            @ ''ID_USB_INTERFACE_NUM=01'' @ [CHR 0x0A])
          else Not_run) \<rparr>"

definition lookups :: "host \<Rightarrow> DeviceMapper \<Rightarrow> DeviceConfig list \<Rightarrow> event list" where
  "lookups h m ds = concat (map (probes h m) (enabled_specs ds))"

definition failure_report :: "host \<Rightarrow> DeviceMapper \<Rightarrow> DeviceConfig list \<Rightarrow> event list" where
  "failure_report h m ds =
     LogError msg_devices_missing
     # map (\<lambda>d. LogError (msg_missing_device @ DeviceConfig.name d @ '' - '' @ failure_reason d))
         (failed_specs h m ds)
     @ [Print msg_press_key, Input]"

definition aborts :: "host \<Rightarrow> DeviceMapper \<Rightarrow> DeviceConfig list \<Rightarrow> bool" where
  "aborts h m ds = (\<not> DeviceMapper.dry_run_mode m \<and> failed_specs h m ds \<noteq> [])"

definition final_container_name :: "DockerRunner \<Rightarrow> string option \<Rightarrow> string" where
  "final_container_name r container_name =
     (if truthy container_name then the container_name else ContainerConfig.name (container_config r))"

definition final_image_name :: "DockerRunner \<Rightarrow> string option \<Rightarrow> string" where
  "final_image_name r image_name =
     (if truthy image_name then the image_name
      else image_repository (container_config r) @ '':'' @ image_tag (container_config r))"

definition with_mode :: "DockerRunner \<Rightarrow> bool \<Rightarrow> DockerRunner" where
  "with_mode r dry_run =
     r \<lparr> DockerRunner.dry_run_mode := dry_run,
         device_mapper := (device_mapper r) \<lparr> DeviceMapper.dry_run_mode := dry_run \<rparr> \<rparr>"

definition is_launch :: "string list \<Rightarrow> bool" where
  "is_launch argv = (take 2 argv = [''docker'', ''run''])"

definition emits_within :: "'a io \<Rightarrow> event set \<Rightarrow> bool" where
  "emits_within m S = (set (snd m) \<subseteq> S)"

section \<open>Basic facts\<close>

lemma bind_Inr [simp]: "bind (Inr x, t) f = (fst (f x), t @ snd (f x))"
  by (simp add: bind_def split: prod.splits)

lemma bind_Inl [simp]: "bind (Inl e, t) f = (Inl e, t)"
  by (simp add: bind_def)

lemma bind_ret [simp]: "bind (ret x) f = f x"
  by (simp add: ret_def)

lemma bind_emit [simp]: "bind (emit ev) f = (fst (f ()), ev # snd (f ()))"
  by (simp add: emit_def)

lemma bind_raise [simp]: "bind (raise e) f = (Inl e, [])"
  by (simp add: raise_def)

lemma try_except_Inr [simp]: "try_except (Inr x, t) hdl = (Inr x, t)"
  by (simp add: try_except_def)

lemma try_except_Inl [simp]:
  "try_except (Inl e, t) hdl = (case hdl e of None \<Rightarrow> (Inl e, t) | Some k \<Rightarrow> (fst k, t @ snd k))"
  by (simp add: try_except_def split: option.splits prod.splits)

lemma get_device_info_returns:
  "get_device_info h d = (Inr (identify h d), [Exec (udevadm_argv d)])"
  by (simp add: identify_def get_device_info_def subprocess_run_def udevadm_argv_def ret_def raise_def
        is_Exception_def split: launch.splits)

lemma identify_failed:
  "run_process h (udevadm_argv d) = Not_run \<or> (\<exists>rc out. run_process h (udevadm_argv d) = Finished rc out \<and> rc \<noteq> 0)
   \<Longrightarrow> identify h d = Map.empty"
  by (auto simp add: identify_def get_device_info_def subprocess_run_def udevadm_argv_def ret_def raise_def
        is_Exception_def split: launch.splits)

lemma visited_simps [simp]:
  "visited P [] = []"
  "visited P (x # xs) = (if P x then [x] else x # visited P xs)"
  by (simp_all add: visited_def)

lemma find_in_eq:
  "find_in h v p i s ds =
     (Inr (List.find (accepts h v p i s) ds),
      map (\<lambda>d. Exec (udevadm_argv d)) (visited (accepts h v p i s) ds))"
proof (induction ds)
  case Nil
  show ?case by (simp add: ret_def)
next
  case (Cons d ds)
  show ?case
    by (simp add: get_device_info_returns Cons.IH accepts_def ret_def)
qed

lemma truthy_simps [simp]: "truthy None = False" "truthy (Some s) = (s \<noteq> [])"
  by (simp_all add: truthy_def)

lemma map_usb_device_eq:
  "is_usb_device d \<Longrightarrow>
   map_usb_device h m d =
     (Inr (List.find (usb_match h d) (tty_devices (finder m))),
      map (\<lambda>t. Exec (udevadm_argv t)) (visited (usb_match h d) (tty_devices (finder m))))"
  by (simp add: map_usb_device_def find_by_usb_id_def find_in_eq usb_match_def)

lemma map_one_disabled:
  "\<not> DeviceConfig.enabled d \<Longrightarrow> map_one h m d st = (Inr st, [])"
  by (simp add: map_one_def ret_def)

lemma map_one_enabled:
  "DeviceConfig.enabled d \<Longrightarrow>
   map_one h m d (f, mp) =
     (Inr (f @ (if resolved_node h m d = None then [(DeviceConfig.name d, failure_reason d)] else []),
           mp @ [item_of h m d]),
      probes h m d)"
proof (cases "is_usb_device d")
  case True
  assume en: "DeviceConfig.enabled d"
  show ?thesis
    using True en
    by (simp add: map_one_def map_usb_device_eq resolved_node_def item_of_def probes_def
          device_arg_of_def failure_reason_def ret_def Let_def)
next
  case False
  assume en: "DeviceConfig.enabled d"
  show ?thesis
    using False en
    by (simp add: map_one_def resolved_node_def item_of_def probes_def
          device_arg_of_def failure_reason_def ret_def emit_def Let_def)
qed

lemma for_each_map_one:
  "for_each (map_one h m) ds (f, mp) =
     (Inr (f @ map (\<lambda>d. (DeviceConfig.name d, failure_reason d)) (failed_specs h m ds),
           mp @ map (item_of h m) (enabled_specs ds)),
      concat (map (probes h m) (enabled_specs ds)))"
proof (induction ds arbitrary: f mp)
  case Nil
  show ?case by (simp add: ret_def failed_specs_def enabled_specs_def)
next
  case (Cons d ds)
  show ?case
  proof (cases "DeviceConfig.enabled d")
    case True
    then show ?thesis
      by (simp add: map_one_enabled Cons.IH failed_specs_def enabled_specs_def)
  next
    case False
    then show ?thesis
      by (simp add: map_one_disabled Cons.IH failed_specs_def enabled_specs_def)
  qed
qed

lemma for_each_emit:
  "for_each (\<lambda>x _. emit (g x)) xs () = (Inr (), map g xs)"
  by (induction xs) (simp_all add: ret_def)

lemma report_failed_dry:
  "report_failed True fs = (Inr (), map (\<lambda>f. Print (msg_cross @ fst f)) fs)"
  by (cases fs) (simp_all add: report_failed_def for_each_emit ret_def del: for_each.simps)

lemma report_failed_normal:
  "fs \<noteq> [] \<Longrightarrow> report_failed False fs =
     (Inl (SystemExit 1),
      LogError msg_devices_missing
        # map (\<lambda>f. LogError (msg_missing_device @ fst f @ '' - '' @ snd f)) fs
        @ [Print msg_press_key, Input])"
  by (simp add: report_failed_def for_each_emit raise_def del: for_each.simps)

lemma report_failed_none: "report_failed dry [] = (Inr (), [])"
  by (simp add: report_failed_def ret_def)

lemma map_devices_dry:
  "DeviceMapper.dry_run_mode m \<Longrightarrow>
   map_devices h m ds =
     (Inr (map (item_of h m) (enabled_specs ds)),
      concat (map (probes h m) (enabled_specs ds))
        @ map (\<lambda>d. Print (msg_cross @ DeviceConfig.name d)) (failed_specs h m ds))"
  by (simp add: map_devices_def for_each_map_one report_failed_dry ret_def comp_def)

lemma map_devices_all_resolved:
  "failed_specs h m ds = [] \<Longrightarrow>
   map_devices h m ds =
     (Inr (map (item_of h m) (enabled_specs ds)), concat (map (probes h m) (enabled_specs ds)))"
  by (simp add: map_devices_def for_each_map_one report_failed_none ret_def)

lemma map_devices_normal_failed:
  "\<not> DeviceMapper.dry_run_mode m \<Longrightarrow> failed_specs h m ds \<noteq> [] \<Longrightarrow>
   map_devices h m ds =
     (Inl (SystemExit 1),
      concat (map (probes h m) (enabled_specs ds))
        @ LogError msg_devices_missing
        # map (\<lambda>d. LogError (msg_missing_device @ DeviceConfig.name d @ '' - '' @ failure_reason d))
            (failed_specs h m ds)
        @ [Print msg_press_key, Input])"
  by (simp add: map_devices_def for_each_map_one report_failed_normal comp_def)

lemma log_device_mapping_fst: "fst (log_device_mapping r d t a) = Inr ()"
  by (simp add: log_device_mapping_def emit_def Let_def)

lemma log_device_mapping_eq:
  "log_device_mapping r d t a = (Inr (), snd (log_device_mapping r d t a))"
  by (metis log_device_mapping_fst prod.collapse)

lemma resolved_node_truthy: "truthy (resolved_node h m d) = (resolved_node h m d \<noteq> None)"
  by (auto simp add: resolved_node_def Let_def truthy_def split: option.splits)

lemma split_ws_acc_Nil: "split_ws_acc [] [] = []"
  by simp

lemma build_volume_args_eq: "build_volume_args h r = volume_args_of h (DockerRunner.volumes r)"
proof -
  have "foldl (\<lambda>volume_args volume.
              if VolumeConfig.enabled volume
              then volume_args @ [''-v'', expanded_source h volume @ '':'' @ target volume
                                           @ '':'' @ VolumeConfig.options volume]
              else volume_args) acc vs = acc @ volume_args_of h vs" for acc vs
    by (induction vs arbitrary: acc) (simp_all add: volume_args_of_def)
  then show ?thesis by (simp add: build_volume_args_def)
qed

lemma for_each_device_args:
  "for_each (\<lambda>item device_args.
                   (case item of (device, tty_device, device_arg) \<Rightarrow>
                      if truthy tty_device
                      then bind (log_device_mapping r device (the tty_device) device_arg)
                             (\<lambda>_. ret (device_args @ [''--device'', device_arg]))
                      else ret device_args))
      (map (item_of h (device_mapper r)) ds) acc =
   (Inr (acc @ concat (map (\<lambda>d. [''--device'', device_arg_of h (device_mapper r) d])
                         (filter (\<lambda>d. resolved_node h (device_mapper r) d \<noteq> None) ds))),
    concat (map (mapping_log h r) (filter (\<lambda>d. resolved_node h (device_mapper r) d \<noteq> None) ds)))"
proof (induction ds arbitrary: acc)
  case Nil
  show ?case by (simp add: ret_def)
next
  case (Cons d ds)
  show ?case
  proof (cases "resolved_node h (device_mapper r) d = None")
    case True
    then have i: "item_of h (device_mapper r) d = (d, None, failure_reason d)"
      by (simp add: item_of_def)
    show ?thesis using True by (simp add: i Cons.IH)
  next
    case False
    then have t: "truthy (resolved_node h (device_mapper r) d)"
      by (simp add: resolved_node_truthy)
    have i: "item_of h (device_mapper r) d
               = (d, resolved_node h (device_mapper r) d, device_arg_of h (device_mapper r) d)"
      using False by (auto simp add: item_of_def)
    have l: "log_device_mapping r d (the (resolved_node h (device_mapper r) d))
               (device_arg_of h (device_mapper r) d) = (Inr (), mapping_log h r d)"
      using log_device_mapping_eq by (simp add: mapping_log_def)
    show ?thesis using False t
      by (simp add: i Cons.IH l ret_def)
  qed
qed

lemma build_device_args_of_items:
  "map_devices h (device_mapper r) (DockerRunner.devices r)
     = (Inr (map (item_of h (device_mapper r)) (enabled_specs (DockerRunner.devices r))), evs) \<Longrightarrow>
   build_device_args h r =
     (Inr (device_args_of h (device_mapper r) (DockerRunner.devices r)),
      evs @ concat (map (mapping_log h r) (resolved_specs h (device_mapper r) (DockerRunner.devices r))))"
  by (simp add: build_device_args_def for_each_device_args device_args_of_def resolved_specs_def)

lemma build_device_args_raises:
  "map_devices h (device_mapper r) (DockerRunner.devices r) = (Inl e, evs) \<Longrightarrow>
   build_device_args h r = (Inl e, evs)"
  by (simp add: build_device_args_def)

lemma build_of_docker_command:
  "build \<lparr> base_cmd = [''docker'', ''run'', ''-d''],
            name = Some cn, image = Some im,
            network = (if ResourceConfig.network (resource_config r) \<noteq> ''bridge''
                       then Some (ResourceConfig.network (resource_config r)) else None),
            privileged = ResourceConfig.privileged (resource_config r),
            gpu_options = (if gpu_enabled (resource_config r)
                           then Some (ResourceConfig.gpu_options (resource_config r)) else None),
            volumes = build_volume_args h r,
            devices = device_args_of h (device_mapper r) (DockerRunner.devices r),
            environment = build_environment_args h r \<rparr>
   = launch_command h r cn im"
  by (simp add: build_def launch_command_def network_args_of_def build_volume_args_eq
        build_environment_args_def split_ws_def Let_def)

lemma build_docker_command_ok:
  "build_device_args h r = (Inr (device_args_of h (device_mapper r) (DockerRunner.devices r)), evs) \<Longrightarrow>
   \<exists>dc. build_docker_command h r cn im = (Inr dc, evs) \<and> build dc = launch_command h r cn im"
  by (simp add: build_docker_command_def ret_def Let_def build_of_docker_command)

lemma str_nat_1000: "str_nat 1000 = ''1000''"
  by (simp add: str_nat.simps digit_char_def)

section \<open>C7: the audio-server address\<close>

text \<open>
  C7, as amended. With no \<open>pulse_server\<close> configured, \<open>get_pulse_server\<close> returns
  \<open>unix:/run/user/{uid}/pulse/native\<close> for the user id of the host, which for user id 1000 is
  \<open>unix:/run/user/1000/pulse/native\<close>. A configured address that is not the empty string is
  returned unchanged. A configured empty string is treated like no address: the value is
  derived from the user id.
\<close>

theorem get_pulse_server_amended:
  "(pulse_server e = None \<longrightarrow>
      get_pulse_server h e = ''unix:/run/user/'' @ str_nat (getuid h) @ ''/pulse/native'')
   \<and> (pulse_server e = None \<and> getuid h = 1000 \<longrightarrow>
      get_pulse_server h e = ''unix:/run/user/1000/pulse/native'')
   \<and> (pulse_server e = Some a \<and> a \<noteq> [] \<longrightarrow> get_pulse_server h e = a)
   \<and> (pulse_server e = Some [] \<longrightarrow>
      get_pulse_server h e = ''unix:/run/user/'' @ str_nat (getuid h) @ ''/pulse/native'')"
  by (simp add: get_pulse_server_def str_nat_1000)

theorem get_pulse_server_amended_witness:
  "get_pulse_server demo_host (parse_environment None) = ''unix:/run/user/1000/pulse/native''
   \<and> get_pulse_server demo_host (EnvironmentConfig_defaults \<lparr> pulse_server := Some ''tcp:10.0.0.2:4713'' \<rparr>)
       = ''tcp:10.0.0.2:4713''"
proof -
  have a: "pulse_server (parse_environment None) = None \<and> getuid demo_host = 1000"
    by (simp add: parse_environment_def EnvironmentConfig_defaults_def get_or_def demo_host_def)
  have b: "pulse_server (EnvironmentConfig_defaults \<lparr> pulse_server := Some ''tcp:10.0.0.2:4713'' \<rparr>)
             = Some ''tcp:10.0.0.2:4713'' \<and> ''tcp:10.0.0.2:4713'' \<noteq> []"
    by simp
  show ?thesis
    using a b get_pulse_server_amended [of "parse_environment None" demo_host "[]"]
      get_pulse_server_amended [of "EnvironmentConfig_defaults \<lparr> pulse_server := Some ''tcp:10.0.0.2:4713'' \<rparr>"
                                   demo_host "''tcp:10.0.0.2:4713''"]
    by blast
qed

text \<open>
  C7 as stated fails where the configured address is the empty string: it is not returned
  unchanged, the derived value is.
\<close>

theorem get_pulse_server_empty_counterexample:
  "pulse_server (EnvironmentConfig_defaults \<lparr> pulse_server := Some [] \<rparr>) = Some []
   \<and> get_pulse_server demo_host (EnvironmentConfig_defaults \<lparr> pulse_server := Some [] \<rparr>)
       = ''unix:/run/user/1000/pulse/native''
   \<and> get_pulse_server demo_host (EnvironmentConfig_defaults \<lparr> pulse_server := Some [] \<rparr>) \<noteq> []"
  by (simp add: get_pulse_server_def demo_host_def str_nat_1000)

section \<open>C9 and C4: identity lookup and matcher\<close>

lemma find_by_usb_id_eq:
  "find_by_usb_id h f v p i s =
     (Inr (List.find (accepts h v p i s) (tty_devices f)),
      map (\<lambda>d. Exec (udevadm_argv d)) (visited (accepts h v p i s) (tty_devices f)))"
  by (simp add: find_by_usb_id_def find_in_eq)

lemma scan_tty_devices_sorted:
  "sorted (scan_tty_devices h)
   \<and> mset (scan_tty_devices h) = mset (glob h ''/dev/ttyUSB*'') + mset (glob h ''/dev/ttyACM*'')"
  by (simp add: scan_tty_devices_def)

text \<open>
  C9. \<open>_get_device_info\<close> always returns a mapping and never raises. When \<open>udevadm\<close> cannot be
  run or exits with a non-zero code, the mapping is empty, and the matcher then passes over
  that node as one that does not match: the search goes on with the remaining nodes. The
  matcher itself never raises.
\<close>

theorem get_device_info_never_raises:
  "(\<exists>device_info. fst (get_device_info h d) = Inr device_info)
   \<and> (run_process h [''udevadm'', ''info'', ''-q'', ''property'', ''-n'', d] = Not_run
        \<or> (\<exists>rc out. run_process h [''udevadm'', ''info'', ''-q'', ''property'', ''-n'', d]
                        = Finished rc out \<and> rc \<noteq> 0)
       \<longrightarrow> fst (get_device_info h d) = Inr Map.empty
           \<and> fst (find_in h v p i s (d # rest)) = fst (find_in h v p i s rest))
   \<and> (\<exists>found. fst (find_by_usb_id h f v p i s) = Inr found)"
proof (intro conjI impI)
  show "\<exists>device_info. fst (get_device_info h d) = Inr device_info"
    by (simp add: get_device_info_returns)
next
  assume a: "run_process h [''udevadm'', ''info'', ''-q'', ''property'', ''-n'', d] = Not_run
        \<or> (\<exists>rc out. run_process h [''udevadm'', ''info'', ''-q'', ''property'', ''-n'', d]
                        = Finished rc out \<and> rc \<noteq> 0)"
  then have e: "identify h d = Map.empty"
    using identify_failed [of h d] by (simp add: udevadm_argv_def)
  show "fst (get_device_info h d) = Inr Map.empty"
    by (simp add: get_device_info_returns e)
  show "fst (find_in h v p i s (d # rest)) = fst (find_in h v p i s rest)"
    by (simp add: find_in_eq accepts_def e)
next
  show "\<exists>found. fst (find_by_usb_id h f v p i s) = Inr found"
    by (simp add: find_by_usb_id_eq)
qed

lemma demo_gone: "run_process demo_host [''udevadm'', ''info'', ''-q'', ''property'', ''-n'', ''/dev/ttyUSB7'']
          = Finished 1 []"
  by (simp add: demo_host_def demo_udev_def)

theorem get_device_info_never_raises_witness:
  "fst (get_device_info demo_host ''/dev/ttyUSB7'') = Inr Map.empty
   \<and> fst (find_in demo_host ''10c4'' ''ea60'' None None [''/dev/ttyUSB7'', ''/dev/ttyUSB0''])
       = fst (find_in demo_host ''10c4'' ''ea60'' None None [''/dev/ttyUSB0''])"
proof -
  have failed: "\<exists>rc out. run_process demo_host [''udevadm'', ''info'', ''-q'', ''property'', ''-n'',
                   ''/dev/ttyUSB7''] = Finished rc out \<and> rc \<noteq> 0"
    using demo_gone by simp
  show ?thesis
    using failed
      get_device_info_never_raises [of demo_host "''/dev/ttyUSB7''" "''10c4''" "''ea60''" None None
        "[''/dev/ttyUSB0'']"]
    by blast
qed

lemma find_Some_first:
  "(List.find P xs = Some x) = (\<exists>k<length xs. xs ! k = x \<and> P x \<and> (\<forall>j<k. \<not> P (xs ! j)))"
  by (auto simp add: find_Some_iff)

text \<open>
  C4. The inventory of a finder is the sorted list of the nodes the two patterns yield.
  \<open>find_by_usb_id\<close> returns a node exactly when that node is the first of the inventory that is
  accepted: vendor id and product id equal to the requested ones, the interface number equal
  to the filter when one is given, the serial equal to the filter when one is given. It
  returns none exactly when no node of the inventory is accepted. For an inventory of two
  nodes with the requested vendor and product ids and different interface numbers, a request
  with an interface filter returns the node with that interface number, and a request
  without filter returns the first node.
\<close>

theorem find_by_usb_id_first_match:
  "sorted (tty_devices (TTYDeviceFinder_init h))
   \<and> mset (tty_devices (TTYDeviceFinder_init h))
       = mset (glob h ''/dev/ttyUSB*'') + mset (glob h ''/dev/ttyACM*'')
   \<and> (fst (find_by_usb_id h f v p i s) = Inr (Some d)
        \<longleftrightarrow> (\<exists>k<length (tty_devices f). tty_devices f ! k = d \<and> accepts h v p i s d
               \<and> (\<forall>j<k. \<not> accepts h v p i s (tty_devices f ! j))))
   \<and> (fst (find_by_usb_id h f v p i s) = Inr None
        \<longleftrightarrow> (\<forall>t\<in>set (tty_devices f). \<not> accepts h v p i s t))
   \<and> (tty_devices f = [a, b]
        \<and> identify h a ''ID_VENDOR_ID'' = Some v \<and> identify h a ''ID_MODEL_ID'' = Some p
        \<and> identify h b ''ID_VENDOR_ID'' = Some v \<and> identify h b ''ID_MODEL_ID'' = Some p
        \<and> identify h a ''ID_USB_INTERFACE_NUM'' = Some ia
        \<and> identify h b ''ID_USB_INTERFACE_NUM'' = Some ib \<and> ia \<noteq> ib
      \<longrightarrow> fst (find_by_usb_id h f v p (Some ia) None) = Inr (Some a)
          \<and> fst (find_by_usb_id h f v p (Some ib) None) = Inr (Some b)
          \<and> fst (find_by_usb_id h f v p None None) = Inr (Some a))"
proof (intro conjI)
  show "sorted (tty_devices (TTYDeviceFinder_init h))"
    by (simp add: TTYDeviceFinder_init_def scan_tty_devices_sorted)
  show "mset (tty_devices (TTYDeviceFinder_init h))
       = mset (glob h ''/dev/ttyUSB*'') + mset (glob h ''/dev/ttyACM*'')"
    by (simp add: TTYDeviceFinder_init_def scan_tty_devices_sorted)
  show "fst (find_by_usb_id h f v p i s) = Inr (Some d)
        \<longleftrightarrow> (\<exists>k<length (tty_devices f). tty_devices f ! k = d \<and> accepts h v p i s d
               \<and> (\<forall>j<k. \<not> accepts h v p i s (tty_devices f ! j)))"
    by (simp add: find_by_usb_id_eq find_Some_first)
  show "fst (find_by_usb_id h f v p i s) = Inr None
        \<longleftrightarrow> (\<forall>t\<in>set (tty_devices f). \<not> accepts h v p i s t)"
    by (auto simp add: find_by_usb_id_eq find_None_iff)
  show "tty_devices f = [a, b]
        \<and> identify h a ''ID_VENDOR_ID'' = Some v \<and> identify h a ''ID_MODEL_ID'' = Some p
        \<and> identify h b ''ID_VENDOR_ID'' = Some v \<and> identify h b ''ID_MODEL_ID'' = Some p
        \<and> identify h a ''ID_USB_INTERFACE_NUM'' = Some ia
        \<and> identify h b ''ID_USB_INTERFACE_NUM'' = Some ib \<and> ia \<noteq> ib
      \<longrightarrow> fst (find_by_usb_id h f v p (Some ia) None) = Inr (Some a)
          \<and> fst (find_by_usb_id h f v p (Some ib) None) = Inr (Some b)
          \<and> fst (find_by_usb_id h f v p None None) = Inr (Some a)"
    by (simp add: find_by_usb_id_eq accepts_def)
qed

lemma dual_inventory: "tty_devices (TTYDeviceFinder_init dual_host) = [''/dev/ttyUSB0'', ''/dev/ttyUSB1'']"
  by code_simp

lemma dual_identify:
  "identify dual_host ''/dev/ttyUSB0'' ''ID_VENDOR_ID'' = Some ''0403''"
  "identify dual_host ''/dev/ttyUSB0'' ''ID_MODEL_ID'' = Some ''6010''"
  "identify dual_host ''/dev/ttyUSB1'' ''ID_VENDOR_ID'' = Some ''0403''"
  "identify dual_host ''/dev/ttyUSB1'' ''ID_MODEL_ID'' = Some ''6010''"
  "identify dual_host ''/dev/ttyUSB0'' ''ID_USB_INTERFACE_NUM'' = Some ''00''"
  "identify dual_host ''/dev/ttyUSB1'' ''ID_USB_INTERFACE_NUM'' = Some ''01''"
  by code_simp+

theorem find_by_usb_id_first_match_witness:
  "fst (find_by_usb_id dual_host (TTYDeviceFinder_init dual_host) ''0403'' ''6010'' (Some ''00'') None)
     = Inr (Some ''/dev/ttyUSB0'')
   \<and> fst (find_by_usb_id dual_host (TTYDeviceFinder_init dual_host) ''0403'' ''6010'' (Some ''01'') None)
     = Inr (Some ''/dev/ttyUSB1'')
   \<and> fst (find_by_usb_id dual_host (TTYDeviceFinder_init dual_host) ''0403'' ''6010'' None None)
     = Inr (Some ''/dev/ttyUSB0'')"
proof -
  have ne: "''00'' \<noteq> ''01''" by simp
  show ?thesis
    using dual_inventory dual_identify ne
      find_by_usb_id_first_match [of dual_host "TTYDeviceFinder_init dual_host" "''0403''" "''6010''"
        None None "''/dev/ttyUSB0''" "''/dev/ttyUSB0''" "''/dev/ttyUSB1''" "''00''" "''01''"]
    by blast
qed

section \<open>The mapping engine and the runner, in closed form\<close>

lemma map_devices_eq:
  "map_devices h m ds =
     (if aborts h m ds
      then (Inl (SystemExit 1), lookups h m ds @ failure_report h m ds)
      else (Inr (map (item_of h m) (enabled_specs ds)),
            lookups h m ds @ map (\<lambda>d. Print (msg_cross @ DeviceConfig.name d)) (failed_specs h m ds)))"
proof (cases "DeviceMapper.dry_run_mode m")
  case True
  then show ?thesis by (simp add: aborts_def map_devices_dry lookups_def)
next
  case False
  show ?thesis
  proof (cases "failed_specs h m ds = []")
    case True
    then show ?thesis by (simp add: aborts_def map_devices_all_resolved lookups_def)
  next
    case nonempty: False
    with False show ?thesis
      by (simp add: aborts_def map_devices_normal_failed lookups_def failure_report_def)
  qed
qed

lemma build_device_args_eq:
  "build_device_args h r =
     (if aborts h (device_mapper r) (DockerRunner.devices r)
      then (Inl (SystemExit 1),
            lookups h (device_mapper r) (DockerRunner.devices r)
              @ failure_report h (device_mapper r) (DockerRunner.devices r))
      else (Inr (device_args_of h (device_mapper r) (DockerRunner.devices r)),
            lookups h (device_mapper r) (DockerRunner.devices r)
              @ map (\<lambda>d. Print (msg_cross @ DeviceConfig.name d))
                  (failed_specs h (device_mapper r) (DockerRunner.devices r))
              @ concat (map (mapping_log h r)
                         (resolved_specs h (device_mapper r) (DockerRunner.devices r)))))"
proof (cases "aborts h (device_mapper r) (DockerRunner.devices r)")
  case True
  then show ?thesis
    using build_device_args_raises [of h r] by (simp add: map_devices_eq)
next
  case False
  then show ?thesis
    using build_device_args_of_items [of h r] by (simp add: map_devices_eq)
qed

lemma build_docker_command_build:
  "fst (build_docker_command h r cn im) = Inr dc \<Longrightarrow> build dc = launch_command h r cn im"
proof -
  assume a: "fst (build_docker_command h r cn im) = Inr dc"
  have na: "\<not> aborts h (device_mapper r) (DockerRunner.devices r)"
    using a by (auto simp add: build_docker_command_def build_device_args_eq Let_def)
  obtain evs where e: "build_device_args h r
       = (Inr (device_args_of h (device_mapper r) (DockerRunner.devices r)), evs)"
    using na by (simp add: build_device_args_eq)
  from build_docker_command_ok [OF e, of cn im] a show ?thesis by auto
qed

lemma build_docker_command_fst:
  "fst (build_docker_command h r cn im) = Inl e \<Longrightarrow> e = SystemExit 1 \<and> aborts h (device_mapper r) (DockerRunner.devices r)"
  by (auto simp add: build_docker_command_def build_device_args_eq Let_def ret_def split: if_splits)

lemma resolved_node_mode [simp]:
  "resolved_node h (m \<lparr> DeviceMapper.dry_run_mode := b \<rparr>) d = resolved_node h m d"
  by (simp add: resolved_node_def)

lemma device_arg_of_mode [simp]:
  "device_arg_of h (m \<lparr> DeviceMapper.dry_run_mode := b \<rparr>) d = device_arg_of h m d"
  by (simp add: device_arg_of_def)

lemma probes_mode [simp]:
  "probes h (m \<lparr> DeviceMapper.dry_run_mode := b \<rparr>) = probes h m"
  by (rule ext) (simp add: probes_def)

lemma specs_mode [simp]:
  "failed_specs h (m \<lparr> DeviceMapper.dry_run_mode := b \<rparr>) ds = failed_specs h m ds"
  "resolved_specs h (m \<lparr> DeviceMapper.dry_run_mode := b \<rparr>) ds = resolved_specs h m ds"
  "lookups h (m \<lparr> DeviceMapper.dry_run_mode := b \<rparr>) ds = lookups h m ds"
  "failure_report h (m \<lparr> DeviceMapper.dry_run_mode := b \<rparr>) ds = failure_report h m ds"
  "device_args_of h (m \<lparr> DeviceMapper.dry_run_mode := b \<rparr>) ds = device_args_of h m ds"
  by (simp_all add: failed_specs_def resolved_specs_def lookups_def failure_report_def device_args_of_def)

lemma launch_command_mode [simp]:
  "launch_command h (with_mode r b) cn im = launch_command h r cn im"
  by (simp add: launch_command_def with_mode_def)

lemma with_mode_fields [simp]:
  "DockerRunner.devices (with_mode r b) = DockerRunner.devices r"
  "device_mapper (with_mode r b) = (device_mapper r) \<lparr> DeviceMapper.dry_run_mode := b \<rparr>"
  "DockerRunner.dry_run_mode (with_mode r b) = b"
  "container_config (with_mode r b) = container_config r"
  by (simp_all add: with_mode_def)

lemma aborts_mode [simp]:
  "aborts h (m \<lparr> DeviceMapper.dry_run_mode := b \<rparr>) ds = (\<not> b \<and> failed_specs h m ds \<noteq> [])"
  by (simp add: aborts_def)

lemma mapping_log_dry:
  "mapping_log h (with_mode r True) d = [Print (msg_check @ DeviceConfig.name d)]"
  by (simp add: mapping_log_def log_device_mapping_def emit_def)

lemma setup_x11_access_eq: "setup_x11_access h = (Inr (), [Exec [''xhost'', ''+local:'']])"
  by (simp add: setup_x11_access_def subprocess_run_def ret_def raise_def is_Exception_def
        split: launch.splits)

lemma run_unfold:
  "run h r cn im dry =
     (if final_container_name r cn = [] \<or> final_image_name r im = [] then ret False
      else
        bind (if \<not> dry then stop_and_remove_container h (final_container_name r cn) else ret True)
          (\<lambda>stopped.
            if \<not> stopped then ret False
            else
              bind (if \<not> dry then setup_x11_access h else ret ()) (\<lambda>_.
              bind (build_docker_command h (with_mode r dry) (final_container_name r cn)
                      (final_image_name r im)) (\<lambda>docker_cmd.
              let cmd = build docker_cmd in
              if dry
              then bind (emit (Print [])) (\<lambda>_.
                   bind (emit (Print (join '' '' cmd))) (\<lambda>_.
                   ret True))
              else try_except (bind (subprocess_run h cmd True) (\<lambda>_. ret True))
                     (\<lambda>e. case e of CalledProcessError _ \<Rightarrow> Some (ret False) | _ \<Rightarrow> None)))))"
  by (simp add: run_def final_container_name_def final_image_name_def with_mode_def Let_def
        cong: if_cong)

lemma build_docker_command_cases:
  "build_docker_command h r cn im =
     (if aborts h (device_mapper r) (DockerRunner.devices r)
      then (Inl (SystemExit 1), snd (build_device_args h r))
      else (fst (build_docker_command h r cn im), snd (build_device_args h r)))"
  by (simp add: build_docker_command_def build_device_args_eq ret_def Let_def)

lemma build_docker_command_Inr:
  "\<not> aborts h (device_mapper r) (DockerRunner.devices r) \<Longrightarrow>
   \<exists>dc. build_docker_command h r cn im = (Inr dc, snd (build_device_args h r))
        \<and> build dc = launch_command h r cn im"
  using build_docker_command_ok [of h r "snd (build_device_args h r)" cn im]
  by (simp add: build_device_args_eq)

lemma run_dry:
  assumes "final_container_name r cn \<noteq> []" "final_image_name r im \<noteq> []"
  shows "run h r cn im True =
     (Inr True,
      lookups h (device_mapper r) (DockerRunner.devices r)
      @ map (\<lambda>d. Print (msg_cross @ DeviceConfig.name d))
          (failed_specs h (device_mapper r) (DockerRunner.devices r))
      @ map (\<lambda>d. Print (msg_check @ DeviceConfig.name d))
          (resolved_specs h (device_mapper r) (DockerRunner.devices r))
      @ [Print [], Print (join '' '' (launch_command h r (final_container_name r cn)
                                       (final_image_name r im)))])"
proof -
  have na: "\<not> aborts h (device_mapper (with_mode r True)) (DockerRunner.devices (with_mode r True))"
    by simp
  obtain dc where dc: "build_docker_command h (with_mode r True) (final_container_name r cn)
        (final_image_name r im) = (Inr dc, snd (build_device_args h (with_mode r True)))"
      and b: "build dc = launch_command h (with_mode r True) (final_container_name r cn)
        (final_image_name r im)"
    using build_docker_command_Inr [OF na] by blast
  have m: "concat (map (mapping_log h (with_mode r True)) ds)
             = map (\<lambda>d. Print (msg_check @ DeviceConfig.name d)) ds" for ds
    by (induction ds) (simp_all add: mapping_log_dry)
  have evs: "snd (build_device_args h (with_mode r True)) =
      lookups h (device_mapper r) (DockerRunner.devices r)
      @ map (\<lambda>d. Print (msg_cross @ DeviceConfig.name d))
          (failed_specs h (device_mapper r) (DockerRunner.devices r))
      @ map (\<lambda>d. Print (msg_check @ DeviceConfig.name d))
          (resolved_specs h (device_mapper r) (DockerRunner.devices r))"
    by (simp add: build_device_args_eq m)
  show ?thesis
    using assms by (simp add: run_unfold dc b evs ret_def Let_def)
qed

lemma emits_ret: "emits_within (ret x) S"
  by (simp add: emits_within_def ret_def)

lemma emits_raise: "emits_within (raise e) S"
  by (simp add: emits_within_def raise_def)

lemma emits_subprocess_run: "Exec argv \<in> S \<Longrightarrow> emits_within (subprocess_run h argv c) S"
  by (simp add: emits_within_def subprocess_run_def ret_def raise_def split: launch.splits)

lemma emits_bind:
  assumes "emits_within m S" and "\<And>x. emits_within (f x) S"
  shows "emits_within (bind m f) S"
proof (cases m)
  case (Pair a t)
  show ?thesis
  proof (cases a)
    case (Inl e)
    with Pair assms(1) show ?thesis by (simp add: emits_within_def)
  next
    case (Inr x)
    with Pair assms(1) assms(2) [of x] show ?thesis by (simp add: emits_within_def)
  qed
qed

lemma emits_try_except:
  assumes "emits_within m S" and "\<And>e k. hdl e = Some k \<Longrightarrow> emits_within k S"
  shows "emits_within (try_except m hdl) S"
proof (cases m)
  case (Pair a t)
  show ?thesis
  proof (cases a)
    case (Inr x)
    with Pair assms(1) show ?thesis by (simp add: emits_within_def)
  next
    case (Inl e)
    show ?thesis
    proof (cases "hdl e")
      case None
      with Pair Inl assms(1) show ?thesis by (simp add: emits_within_def)
    next
      case (Some k)
      with Pair Inl assms(1) assms(2) [OF Some] show ?thesis by (simp add: emits_within_def)
    qed
  qed
qed

lemma emits_if:
  "emits_within a S \<Longrightarrow> emits_within b S \<Longrightarrow> emits_within (if c then a else b) S"
  by simp

lemma get_container_status_events:
  "emits_within (get_container_status h n)
     {Exec [''docker'', ''ps'', ''-a'', ''--format'', ''{{.Names}}''],
      Exec [''docker'', ''ps'', ''--format'', ''{{.Names}}'']}"
  unfolding get_container_status_def Let_def
  by (intro emits_try_except emits_bind emits_if emits_ret emits_subprocess_run)
     (auto simp add: emits_within_def ret_def split: exn.splits)

lemma emits_mono: "emits_within m S \<Longrightarrow> S \<subseteq> T \<Longrightarrow> emits_within m T"
  by (auto simp add: emits_within_def)

lemma stop_and_remove_container_events:
  "emits_within (stop_and_remove_container h n)
     {Exec [''docker'', ''ps'', ''-a'', ''--format'', ''{{.Names}}''],
      Exec [''docker'', ''ps'', ''--format'', ''{{.Names}}''],
      Exec [''docker'', ''stop'', n], Exec [''docker'', ''rm'', ''-f'', n]}"
  unfolding stop_and_remove_container_def
  by (intro emits_try_except emits_bind emits_if emits_ret emits_subprocess_run
        emits_mono [OF get_container_status_events])
     (auto simp add: emits_within_def ret_def split: exn.splits)

end
